theory Spec2Isabelle
  imports Complex_Main "HOL-Library.Log_Nat"
begin

section \<open>Conventions of the embedding\<close>

text \<open>
  The two Python modules \<^verbatim>\<open>BalatroObjects.py\<close> and \<^verbatim>\<open>GameStates.py\<close> are
  embedded function by function.

  \<^item> A class is a \<^theory_text>\<open>record\<close> of its attributes. An attribute name shared by
    several classes carries the class as a prefix (\<open>hand_name\<close>, \<open>item_cost\<close>, ...).
  \<^item> Python integers are \<open>int\<close>. A finite Python float is the rational it denotes.
    The product \<^verbatim>\<open>base_multiplier * level\<close> of \<^verbatim>\<open>Hand.calculate_multiplier\<close> is
    computed as Python computes it: the integer is converted to binary64, the product
    is rounded to binary64 (round to nearest, ties to even), a conversion out of range
    raises \<^verbatim>\<open>OverflowError\<close> and a product out of range is an infinity. The quotient
    \<^verbatim>\<open>cost / 10\<close> of \<^verbatim>\<open>BuyState.simulate\<close>, the product \<^verbatim>\<open>multiplier * 10\<close> of
    \<^verbatim>\<open>PlayState.simulate\<close> and the ledger's multiplier are kept as the exact rationals.
  \<^item> A method call yields the outcome together with the objects it may have mutated:
    \<open>(error + 'r) \<times> 's\<close>. \<open>Inl\<close> is the raised exception; the state component is the
    state at the moment the call ends or raises.
  \<^item> A constructor yields \<open>error + 'obj\<close>: a raising constructor produces no object.
  \<^item> \<^verbatim>\<open>print\<close> lines are not modelled; they do not influence any value.
\<close>

datatype error =
    ValueError string
  | KeyError string
  | IndexError string
  | OverflowError string
  | NotImplementedError string
  | AttributeError string

type_synonym ('r, 's) call = "(error + 'r) \<times> 's"

section \<open>Binary64 arithmetic\<close>

text \<open>
  A Python float is an IEEE 754 binary64 number: a finite value (a rational) or an
  infinity. The sign of zero is not kept, and no operation of the modelled code yields
  a NaN.
\<close>

datatype pyfloat = Finite rat | PosInf | NegInf

text \<open>\<open>ilog2 x\<close> is the exponent \<open>e\<close> with \<open>2^e \<le> |x| < 2^(e+1)\<close>, for \<open>x \<noteq> 0\<close>.\<close>

definition ilog2 :: "rat \<Rightarrow> int" where
  "ilog2 x =
     (let p = \<bar>fst (quotient_of x)\<bar>; q = snd (quotient_of x); d = bitlen p - bitlen q
      in if power_int 2 d \<le> \<bar>x\<bar> then d else d - 1)"

definition round_half_even :: "rat \<Rightarrow> int" where
  "round_half_even x =
     (let f = \<lfloor>x\<rfloor>; d = x - of_int f
      in if d < 1 / 2 then f else if 1 / 2 < d then f + 1 else if even f then f else f + 1)"

text \<open>
  Rounding a rational to binary64: 53 significant bits, the exponent of the unit in the
  last place at least \<open>-1022 - 52\<close> (subnormal numbers), nearest value with ties to the
  even significand, and an infinity when the rounded magnitude reaches \<open>2^1024\<close>.
\<close>

definition binary64 :: "rat \<Rightarrow> pyfloat" where
  "binary64 x =
     (if x = 0 then Finite 0
      else
        (let e = max (ilog2 x) (- 1022);
             u = power_int 2 (e - 52);
             r = of_int (round_half_even (x / u)) * u
         in if power_int 2 1024 \<le> \<bar>r\<bar> then (if 0 < x then PosInf else NegInf)
            else Finite r))"

text \<open>
  The conversion of an integer operand of a float operation: correctly rounded, and
  \<^verbatim>\<open>OverflowError\<close> when the integer is too large for a finite float.
\<close>

definition int_to_float :: "int \<Rightarrow> error + rat" where
  "int_to_float n =
     (case binary64 (of_int n) of
        Finite r \<Rightarrow> Inr r
      | PosInf \<Rightarrow> Inl (OverflowError ''int too large to convert to float'')
      | NegInf \<Rightarrow> Inl (OverflowError ''int too large to convert to float''))"

section \<open>The ledger mutated by effects\<close>

text \<open>
  \<^verbatim>\<open>player\<close> / \<^verbatim>\<open>game_state\<close> arguments of the effect methods are duck typed; the
  record lists the attributes those methods read or write.
\<close>

record ledger =
  chips :: int
  multiplier :: rat
  hand_size :: int
  double_bet :: bool
  ledger_rerolls_remaining :: int
  shop_discount :: int
  shop_slots :: int

section \<open>Effect\<close>

record Effect =
  effect_type :: string
  effect_value :: "int option"

definition Effect_init :: "string \<Rightarrow> int option \<Rightarrow> Effect" where
  "Effect_init et v = \<lparr>effect_type = et, effect_value = v\<rparr>"

text \<open>\<^verbatim>\<open>Effect.apply(self, player)\<close>: an if/elif chain over the effect type.\<close>

definition Effect_apply :: "Effect \<Rightarrow> ledger \<Rightarrow> (unit, ledger) call" where
  "Effect_apply self player =
     (if effect_type self = ''increase_chips'' \<and> effect_value self \<noteq> None then
        (Inr (), player\<lparr>chips := chips player + the (effect_value self)\<rparr>)
      else if effect_type self = ''double_bet'' then
        (Inr (), player\<lparr>double_bet := True\<rparr>)
      else if effect_type self = ''swap_cards'' then
        (Inr (), player)
      else
        (Inr (), player))"

section \<open>Card\<close>

record Card =
  card_name :: string
  suit :: string
  chip_value :: int
  effects :: "Effect list"

definition Card_init :: "string \<Rightarrow> string \<Rightarrow> int \<Rightarrow> Effect list option \<Rightarrow> Card" where
  "Card_init n s cv effs =
     \<lparr>card_name = n, suit = s, chip_value = cv,
      effects = (case effs of None \<Rightarrow> [] | Some es \<Rightarrow> es)\<rparr>"

text \<open>\<^verbatim>\<open>Card.apply_effects\<close>: the effects in list order; a raising effect ends the loop.\<close>

fun apply_effects_loop :: "Effect list \<Rightarrow> ledger \<Rightarrow> (unit, ledger) call" where
  "apply_effects_loop [] player = (Inr (), player)"
| "apply_effects_loop (e # es) player =
     (case Effect_apply e player of
        (Inl err, player') \<Rightarrow> (Inl err, player')
      | (Inr u, player') \<Rightarrow> apply_effects_loop es player')"

definition Card_apply_effects :: "Card \<Rightarrow> ledger \<Rightarrow> (unit, ledger) call" where
  "Card_apply_effects self player = apply_effects_loop (effects self) player"

section \<open>Hand\<close>

definition HAND_BASE_MULTIPLIERS :: "(string \<times> rat) list" where
  "HAND_BASE_MULTIPLIERS =
     [(''High Card'', 1),
      (''Pair'', 3 / 2),
      (''Two Pair'', 2),
      (''Three of a Kind'', 5 / 2),
      (''Straight'', 3),
      (''Flush'', 7 / 2),
      (''Full House'', 4),
      (''Four of a Kind'', 5),
      (''Straight Flush'', 7)]"

definition HAND_BASE_CHIPS :: "(string \<times> int) list" where
  "HAND_BASE_CHIPS =
     [(''High Card'', 5),
      (''Pair'', 10),
      (''Two Pair'', 15),
      (''Three of a Kind'', 20),
      (''Straight'', 30),
      (''Flush'', 40),
      (''Full House'', 50),
      (''Four of a Kind'', 75),
      (''Straight Flush'', 100),
      (''Royal Flush'', 150)]"

record Hand =
  hand_name :: string
  cards :: "Card list"
  level :: int
  base_chips :: int
  base_multiplier :: rat

text \<open>
  \<^verbatim>\<open>Hand.__init__\<close>: the membership test on the multiplier table raises
  \<^verbatim>\<open>ValueError\<close>; the two subscripts raise \<^verbatim>\<open>KeyError\<close> on a missing key.
\<close>

definition Hand_init :: "string \<Rightarrow> Card list \<Rightarrow> error + Hand" where
  "Hand_init name cs =
     (if map_of HAND_BASE_MULTIPLIERS name = None then
        Inl (ValueError (''Invalid hand name: '' @ name))
      else
        (case map_of HAND_BASE_CHIPS name of
           None \<Rightarrow> Inl (KeyError name)
         | Some bc \<Rightarrow>
             (case map_of HAND_BASE_MULTIPLIERS name of
                None \<Rightarrow> Inl (KeyError name)
              | Some bm \<Rightarrow>
                  Inr \<lparr>hand_name = name, cards = cs, level = 1,
                       base_chips = bc, base_multiplier = bm\<rparr>)))"

definition calculate_chips :: "Hand \<Rightarrow> int" where
  "calculate_chips self = base_chips self * level self"

text \<open>
  \<^verbatim>\<open>calculate_multiplier\<close>: the float \<^verbatim>\<open>base_multiplier\<close> times the integer \<^verbatim>\<open>level\<close>,
  a float product after the conversion of the level.
\<close>

definition calculate_multiplier :: "Hand \<Rightarrow> error + pyfloat" where
  "calculate_multiplier self =
     (case int_to_float (level self) of
        Inl e \<Rightarrow> Inl e
      | Inr l \<Rightarrow> Inr (binary64 (base_multiplier self * l)))"

definition level_up :: "Hand \<Rightarrow> Hand" where
  "level_up self = self\<lparr>level := level self + 1\<rparr>"

section \<open>Consumables\<close>

record Consumable_attrs =
  consumable_name :: string
  consumable_cost :: int
  description :: string
  rarity :: string

text \<open>
  The instance's class selects the method: the base class \<^verbatim>\<open>Consumable\<close> and its
  three subclasses, each with the attributes its own \<^verbatim>\<open>__init__\<close> adds after calling
  \<^verbatim>\<open>super().__init__\<close>.
\<close>

datatype Consumable =
    Consumable_obj Consumable_attrs
  | TarotCard_obj Consumable_attrs string int
  | PlanetCard_obj Consumable_attrs string
  | SpectralCard_obj Consumable_attrs int "ledger \<Rightarrow> (unit, ledger) call"

definition Consumable_init :: "string \<Rightarrow> int \<Rightarrow> string \<Rightarrow> string \<Rightarrow> Consumable_attrs" where
  "Consumable_init n c d r =
     \<lparr>consumable_name = n, consumable_cost = c, description = d, rarity = r\<rparr>"

definition TarotCard_init :: "string \<Rightarrow> int \<Rightarrow> string \<Rightarrow> string \<Rightarrow> string \<Rightarrow> int \<Rightarrow> Consumable" where
  "TarotCard_init n c d r buff_type buff_value =
     TarotCard_obj (Consumable_init n c d r) buff_type buff_value"

definition PlanetCard_init :: "string \<Rightarrow> int \<Rightarrow> string \<Rightarrow> string \<Rightarrow> string \<Rightarrow> Consumable" where
  "PlanetCard_init n c d r special_effect =
     PlanetCard_obj (Consumable_init n c d r) special_effect"

definition SpectralCard_init ::
  "string \<Rightarrow> int \<Rightarrow> string \<Rightarrow> string \<Rightarrow> int \<Rightarrow> (ledger \<Rightarrow> (unit, ledger) call) \<Rightarrow> Consumable" where
  "SpectralCard_init n c d r duration effect_function =
     SpectralCard_obj (Consumable_init n c d r) duration effect_function"

text \<open>
  \<^verbatim>\<open>apply_effect(self, game_state)\<close>. The result state is the pair of the consumable
  and the ledger it was applied to.
\<close>

fun apply_effect :: "Consumable \<Rightarrow> ledger \<Rightarrow> (unit, Consumable \<times> ledger) call" where
  "apply_effect (Consumable_obj a) game_state =
     (Inl (NotImplementedError ''Each consumable card must implement its own effect.''),
      (Consumable_obj a, game_state))"
| "apply_effect (TarotCard_obj a buff_type buff_value) game_state =
     (Inr (),
      (TarotCard_obj a buff_type buff_value,
       (if buff_type = ''Multiplier'' then
          game_state\<lparr>multiplier := multiplier game_state + of_int buff_value\<rparr>
        else if buff_type = ''Chips'' then
          game_state\<lparr>chips := chips game_state + buff_value\<rparr>
        else if buff_type = ''Hand Size'' then
          game_state\<lparr>hand_size := hand_size game_state + buff_value\<rparr>
        else game_state)))"
| "apply_effect (PlanetCard_obj a special_effect) game_state =
     (Inr (),
      (PlanetCard_obj a special_effect,
       (if special_effect = ''Double Multiplier'' then
          game_state\<lparr>multiplier := multiplier game_state * 2\<rparr>
        else if special_effect = ''Double Chips'' then
          game_state\<lparr>chips := chips game_state * 2\<rparr>
        else game_state)))"
| "apply_effect (SpectralCard_obj a duration effect_function) game_state =
     (case effect_function game_state of
        (r, game_state') \<Rightarrow> (r, (SpectralCard_obj a duration effect_function, game_state')))"

section \<open>BossBlinds\<close>

record BossBlinds =
  small_blind :: int
  big_blind :: int
  escalation_rate :: int
  max_blind_cap :: int
  difficulty_level :: int
  special_rules :: "(string \<times> int) list"
  round_counter :: int
  boss_mode_active :: bool

text \<open>
  \<^verbatim>\<open>BossBlinds.__init__\<close>; \<^verbatim>\<open>special_rules\<close> is a dict, kept as the list of its
  items in iteration order, \<open>None\<close> (or an empty dict) giving the empty dict.
\<close>

definition BossBlinds_init ::
  "int \<Rightarrow> int \<Rightarrow> int \<Rightarrow> int \<Rightarrow> int \<Rightarrow> (string \<times> int) list option \<Rightarrow> BossBlinds" where
  "BossBlinds_init sb bb er cap dl rules =
     \<lparr>small_blind = sb, big_blind = bb, escalation_rate = er, max_blind_cap = cap,
      difficulty_level = dl,
      special_rules = (case rules of None \<Rightarrow> [] | Some rs \<Rightarrow> rs),
      round_counter = 0, boss_mode_active = False\<rparr>"

definition activate_boss_mode :: "BossBlinds \<Rightarrow> BossBlinds" where
  "activate_boss_mode self = self\<lparr>boss_mode_active := True\<rparr>"

definition deactivate_boss_mode :: "BossBlinds \<Rightarrow> BossBlinds" where
  "deactivate_boss_mode self = self\<lparr>boss_mode_active := False\<rparr>"

definition increase_boss_blinds :: "BossBlinds \<Rightarrow> BossBlinds" where
  "increase_boss_blinds self =
     (if boss_mode_active self then
        (let self1 = self\<lparr>round_counter := round_counter self + 1\<rparr> in
         if round_counter self1 \<ge> difficulty_level self1 * escalation_rate self1 then
           (let self2 = self1\<lparr>small_blind := min (small_blind self1 + 5) (max_blind_cap self1)\<rparr>;
                self3 = self2\<lparr>big_blind := min (big_blind self2 + 5) (max_blind_cap self2)\<rparr>
            in self3\<lparr>round_counter := 0\<rparr>)
         else self1)
      else self)"

text \<open>\<^verbatim>\<open>apply_boss_rules(self, game_state)\<close>: the loop over the rule items.\<close>

fun apply_boss_rules_loop :: "(string \<times> int) list \<Rightarrow> ledger \<Rightarrow> ledger" where
  "apply_boss_rules_loop [] game_state = game_state"
| "apply_boss_rules_loop ((rule, v) # rest) game_state =
     apply_boss_rules_loop rest
       (if rule = ''bonus_chips'' then game_state\<lparr>chips := chips game_state + v\<rparr>
        else if rule = ''double_bet'' then game_state\<lparr>double_bet := True\<rparr>
        else game_state)"

definition apply_boss_rules :: "BossBlinds \<Rightarrow> ledger \<Rightarrow> BossBlinds \<times> ledger" where
  "apply_boss_rules self game_state =
     (self, apply_boss_rules_loop (special_rules self) game_state)"

definition get_current_boss_blinds :: "BossBlinds \<Rightarrow> int \<times> int" where
  "get_current_boss_blinds self = (small_blind self, big_blind self)"

text \<open>
  A driver's calls on one BossBlinds object and the ledger it passes to
  \<^verbatim>\<open>apply_boss_rules\<close>, run from left to right.
\<close>

datatype boss_call =
    Activate
  | Deactivate
  | Increase
  | ApplyRules

fun boss_step :: "BossBlinds \<times> ledger \<Rightarrow> boss_call \<Rightarrow> BossBlinds \<times> ledger" where
  "boss_step (b, g) Activate = (activate_boss_mode b, g)"
| "boss_step (b, g) Deactivate = (deactivate_boss_mode b, g)"
| "boss_step (b, g) Increase = (increase_boss_blinds b, g)"
| "boss_step (b, g) ApplyRules = apply_boss_rules b g"

definition boss_run :: "boss_call list \<Rightarrow> BossBlinds \<times> ledger \<Rightarrow> BossBlinds \<times> ledger" where
  "boss_run cs st = foldl boss_step st cs"

section \<open>Game-state nodes\<close>

text \<open>
  A node refers to its parent and its children by reference; a reference is a
  number. \<open>node_value\<close> is the attribute \<^verbatim>\<open>value\<close>.
\<close>

type_synonym node_ref = nat

record GameState_attrs =
  state_type :: string
  parent :: "node_ref option"
  children :: "node_ref list"
  visits :: int
  node_value :: rat

text \<open>A shop item is a dict with the keys \<^verbatim>\<open>"name"\<close> and \<^verbatim>\<open>"cost"\<close>.\<close>

record shop_item =
  item_name :: string
  item_cost :: int

record PlayState_attrs =
  hand :: "Card list"
  play_chips :: int
  play_multiplier :: rat
  required_score :: int
  current_score :: int
  rounds_remaining :: int
  jokers :: "string list"
  active_buffs :: "string list"
  is_boss_round :: bool
  played_hands :: "string list"
  bonus_cards_used :: int
  score_multiplier_history :: "rat list"

record BuyState_attrs =
  shop_items :: "shop_item list"
  money :: int
  jokers_owned :: "string list"
  rerolls_remaining :: int
  shop_level :: int
  bonus_discount :: int
  items_purchased :: "string list"
  free_reroll_used :: bool

text \<open>
  An instance is its class together with the attributes that the constructors that
  ran on it have set. The attributes of \<^verbatim>\<open>GameState.__init__\<close> exist on an instance of
  a subclass only when that constructor has run on it: \<open>None\<close> when it has not, and
  reading such an attribute raises \<^verbatim>\<open>AttributeError\<close>.
\<close>

datatype GameState =
    GameState_obj GameState_attrs
  | PlayState_obj "GameState_attrs option" PlayState_attrs
  | BuyState_obj "GameState_attrs option" BuyState_attrs

definition GameState_init :: "string \<Rightarrow> node_ref option \<Rightarrow> GameState" where
  "GameState_init st par =
     GameState_obj
       \<lparr>state_type = st, parent = par, children = [], visits = 0, node_value = 0\<rparr>"

text \<open>
  \<^verbatim>\<open>PlayState.__init__\<close> and \<^verbatim>\<open>BuyState.__init__\<close> assign their own attributes and
  make no call to \<^verbatim>\<open>GameState.__init__\<close>.
\<close>

definition PlayState_init ::
  "Card list \<Rightarrow> int \<Rightarrow> rat \<Rightarrow> int \<Rightarrow> int \<Rightarrow> int \<Rightarrow> string list \<Rightarrow> string list \<Rightarrow> GameState" where
  "PlayState_init h c m rs cs rr js bs =
     PlayState_obj None
       \<lparr>hand = h, play_chips = c, play_multiplier = m, required_score = rs,
        current_score = cs, rounds_remaining = rr, jokers = js, active_buffs = bs,
        is_boss_round = False, played_hands = [], bonus_cards_used = 0,
        score_multiplier_history = []\<rparr>"

definition BuyState_init ::
  "shop_item list \<Rightarrow> int \<Rightarrow> string list \<Rightarrow> int \<Rightarrow> int \<Rightarrow> GameState" where
  "BuyState_init items m jo rr sl =
     BuyState_obj None
       \<lparr>shop_items = items, money = m, jokers_owned = jo, rerolls_remaining = rr,
        shop_level = sl, bonus_discount = 0, items_purchased = [],
        free_reroll_used = False\<rparr>"

fun base_attrs :: "GameState \<Rightarrow> GameState_attrs option" where
  "base_attrs (GameState_obj g) = Some g"
| "base_attrs (PlayState_obj b p) = b"
| "base_attrs (BuyState_obj b s) = b"

text \<open>Reading \<^verbatim>\<open>node.visits\<close>, \<^verbatim>\<open>node.value\<close> and \<^verbatim>\<open>node.children\<close>.\<close>

definition get_visits :: "GameState \<Rightarrow> error + int" where
  "get_visits n =
     (case base_attrs n of None \<Rightarrow> Inl (AttributeError ''visits'') | Some g \<Rightarrow> Inr (visits g))"

definition get_value :: "GameState \<Rightarrow> error + rat" where
  "get_value n =
     (case base_attrs n of None \<Rightarrow> Inl (AttributeError ''value'') | Some g \<Rightarrow> Inr (node_value g))"

definition get_children :: "GameState \<Rightarrow> error + node_ref list" where
  "get_children n =
     (case base_attrs n of None \<Rightarrow> Inl (AttributeError ''children'')
      | Some g \<Rightarrow> Inr (children g))"

text \<open>
  \<^verbatim>\<open>random.choice(seq)\<close>: the element at an index below the length, the index coming
  from the random source as the draw \<open>r\<close>; \<^verbatim>\<open>IndexError\<close> on an empty sequence.
\<close>

definition choice :: "nat \<Rightarrow> 'a list \<Rightarrow> error + 'a" where
  "choice r xs =
     (if xs = [] then Inl (IndexError ''Cannot choose from an empty sequence'')
      else Inr (xs ! (r mod length xs)))"

text \<open>The three methods, selected by the class of the instance.\<close>

fun is_terminal :: "GameState \<Rightarrow> (bool, GameState) call" where
  "is_terminal (GameState_obj g) = (Inl (NotImplementedError []), GameState_obj g)"
| "is_terminal (PlayState_obj b p) =
     (Inr (current_score p \<ge> required_score p \<or> rounds_remaining p \<le> 0), PlayState_obj b p)"
| "is_terminal (BuyState_obj b s) =
     (Inr (money s \<le> 0 \<or> shop_items s = []), BuyState_obj b s)"

fun get_actions :: "GameState \<Rightarrow> (string list, GameState) call" where
  "get_actions (GameState_obj g) = (Inl (NotImplementedError []), GameState_obj g)"
| "get_actions (PlayState_obj b p) =
     (Inr [''Pair'', ''Flush'', ''Full House'', ''Straight''], PlayState_obj b p)"
| "get_actions (BuyState_obj b s) =
     (Inr [item_name item. item \<leftarrow> shop_items s, item_cost item \<le> money s],
      BuyState_obj b s)"

fun simulate :: "nat \<Rightarrow> GameState \<Rightarrow> (rat, GameState) call" where
  "simulate r (GameState_obj g) = (Inl (NotImplementedError []), GameState_obj g)"
| "simulate r (PlayState_obj b p) =
     (case get_actions (PlayState_obj b p) of
        (Inl e, self) \<Rightarrow> (Inl e, self)
      | (Inr actions, self) \<Rightarrow>
          (case choice r actions of
             Inl e \<Rightarrow> (Inl e, self)
           | Inr action \<Rightarrow> (Inr (play_multiplier p * 10), self)))"
| "simulate r (BuyState_obj b s) =
     (let affordable_items = [item. item \<leftarrow> shop_items s, item_cost item \<le> money s] in
      if affordable_items = [] then (Inr 0, BuyState_obj b s)
      else
        (case choice r affordable_items of
           Inl e \<Rightarrow> (Inl e, BuyState_obj b s)
         | Inr chosen_item \<Rightarrow> (Inr (of_int (item_cost chosen_item) / 10), BuyState_obj b s)))"

section \<open>Concrete inputs and auxiliary predicates\<close>

definition L0 :: ledger where
  "L0 = \<lparr>chips = 3, multiplier = 1, hand_size = 8, double_bet = False,
          ledger_rerolls_remaining = 0, shop_discount = 0, shop_slots = 2\<rparr>"


text \<open>Both blinds of a BossBlinds object are at most its cap.\<close>

definition capped :: "BossBlinds \<Rightarrow> bool" where
  "capped b = (small_blind b \<le> max_blind_cap b \<and> big_blind b \<le> max_blind_cap b)"

section \<open>Node statistics at creation\<close>

text \<open>
  C1. A node built by \<^verbatim>\<open>GameState.__init__\<close> has \<open>visits = 0\<close>, \<open>value = 0.0\<close> and no
  children. A node built by the PlayState or the BuyState constructor has none of the
  three attributes, since neither constructor runs \<^verbatim>\<open>GameState.__init__\<close>: reading them
  raises \<^verbatim>\<open>AttributeError\<close>, here at PlayState(hand=[], chips=0, multiplier=1,
  required_score=100, current_score=0, rounds_remaining=3, jokers=[], active_buffs=[])
  and at BuyState(shop_items=[], money=10, jokers_owned=[], rerolls_remaining=1,
  shop_level=1).
\<close>

theorem subclass_nodes_lack_statistics:
  "get_visits (GameState_init st par) = Inr 0
   \<and> get_value (GameState_init st par) = Inr 0
   \<and> get_children (GameState_init st par) = Inr []
   \<and> get_visits (PlayState_init [] 0 1 100 0 3 [] []) = Inl (AttributeError ''visits'')
   \<and> get_value (PlayState_init [] 0 1 100 0 3 [] []) = Inl (AttributeError ''value'')
   \<and> get_children (PlayState_init [] 0 1 100 0 3 [] []) = Inl (AttributeError ''children'')
   \<and> get_visits (BuyState_init [] 10 [] 1 1) = Inl (AttributeError ''visits'')
   \<and> get_value (BuyState_init [] 10 [] 1 1) = Inl (AttributeError ''value'')
   \<and> get_children (BuyState_init [] 10 [] 1 1) = Inl (AttributeError ''children'')"
  by (simp add: get_visits_def get_value_def get_children_def GameState_init_def
        PlayState_init_def BuyState_init_def)

section \<open>Hand scoring\<close>

lemma nine_categories:
  "length HAND_BASE_MULTIPLIERS = 9 \<and> distinct (map fst HAND_BASE_MULTIPLIERS)"
  by (simp add: HAND_BASE_MULTIPLIERS_def)

lemma chips_for_every_multiplier:
  "map_of HAND_BASE_MULTIPLIERS name = Some m \<Longrightarrow> \<exists>c. map_of HAND_BASE_CHIPS name = Some c"
  by (simp add: HAND_BASE_MULTIPLIERS_def HAND_BASE_CHIPS_def split: if_splits)

lemma level_up_funpow:
  "(level_up ^^ N) h = h\<lparr>level := level h + int N\<rparr>"
  by (induction N) (simp_all add: level_up_def)

lemma bitlen_bounds_rat:
  assumes "0 < a"
  shows "power_int (2::rat) (bitlen a - 1) \<le> of_int a" and "of_int a < power_int (2::rat) (bitlen a)"
proof -
  from assms have b1: "1 \<le> bitlen a" by (simp add: bitlen_alt_def)
  from bitlen_bounds [OF assms]
  have lo: "2 ^ nat (bitlen a - 1) \<le> a" and hi: "a < 2 ^ nat (bitlen a)" by simp_all
  have "(of_int (2 ^ nat (bitlen a - 1)) :: rat) \<le> of_int a"
    using lo by (simp only: of_int_le_iff)
  then show "power_int (2::rat) (bitlen a - 1) \<le> of_int a"
    using b1 by (simp add: power_int_def)
  have "(of_int a :: rat) < of_int (2 ^ nat (bitlen a))"
    using hi by (simp only: of_int_less_iff)
  then show "of_int a < power_int (2::rat) (bitlen a)"
    using b1 by (simp add: power_int_def)
qed


lemma ilog2_bounds:
  assumes "x \<noteq> 0"
  shows "power_int 2 (ilog2 x) \<le> \<bar>x\<bar>" and "\<bar>x\<bar> < power_int 2 (ilog2 x + 1)"
proof -
  obtain p q where pq: "quotient_of x = (p, q)" by (cases "quotient_of x")
  then have q: "0 < q" and x: "x = of_int p / of_int q"
    by (simp_all add: quotient_of_denom_pos quotient_of_div)
  from x assms have p: "0 < \<bar>p\<bar>" by auto
  define d where "d = bitlen \<bar>p\<bar> - bitlen q"
  have ax: "\<bar>x\<bar> = of_int \<bar>p\<bar> / of_int q"
    using q x by simp
  have qpos: "(0::rat) < of_int q" using q by simp
  note P = bitlen_bounds_rat [OF p]
  note Q = bitlen_bounds_rat [OF q]
  have up: "\<bar>x\<bar> < power_int 2 (d + 1)"
  proof -
    have "of_int \<bar>p\<bar> < power_int (2::rat) (bitlen \<bar>p\<bar>)" by (rule P(2))
    also have "\<dots> = power_int 2 (d + 1) * power_int 2 (bitlen q - 1)"
      by (simp add: d_def flip: power_int_add)
    also have "\<dots> \<le> power_int 2 (d + 1) * of_int q"
      using Q(1) by (intro mult_left_mono) simp_all
    finally show ?thesis
      using qpos by (simp add: ax pos_divide_less_eq)
  qed
  have lo: "power_int 2 (d - 1) < \<bar>x\<bar>"
  proof -
    have "power_int 2 (d - 1) * of_int q < power_int (2::rat) (d - 1) * power_int 2 (bitlen q)"
      using Q(2) by (intro mult_strict_left_mono) simp_all
    also have "\<dots> = power_int 2 (bitlen \<bar>p\<bar> - 1)"
      by (simp add: d_def flip: power_int_add)
    also have "\<dots> \<le> of_int \<bar>p\<bar>" by (rule P(1))
    finally show ?thesis
      using qpos by (simp add: ax pos_less_divide_eq)
  qed
  have il: "ilog2 x = (if power_int 2 d \<le> \<bar>x\<bar> then d else d - 1)"
    by (simp add: ilog2_def pq d_def Let_def)
  show "power_int 2 (ilog2 x) \<le> \<bar>x\<bar>"
    using lo by (simp add: il)
  show "\<bar>x\<bar> < power_int 2 (ilog2 x + 1)"
    using up by (simp add: il)
qed

lemma ilog2_eqI:
  assumes "power_int 2 e \<le> \<bar>x\<bar>" and "\<bar>x\<bar> < power_int 2 (e + 1)"
  shows "ilog2 x = e"
proof -
  have "0 < \<bar>x\<bar>"
    using assms(1) by (rule less_le_trans [rotated]) simp
  then have x: "x \<noteq> 0" by simp
  note B = ilog2_bounds [OF x]
  have "power_int (2::rat) e < power_int 2 (ilog2 x + 1)"
    using assms(1) B(2) by (rule le_less_trans)
  then have a: "e < ilog2 x + 1"
    by (metis power_int_increasing not_less one_le_numeral)
  have "power_int (2::rat) (ilog2 x) < power_int 2 (e + 1)"
    using B(1) assms(2) by (rule le_less_trans)
  then have b: "ilog2 x < e + 1"
    by (metis power_int_increasing not_less one_le_numeral)
  from a b show ?thesis by simp
qed

lemma round_half_even_of_int: "round_half_even (of_int n) = n"
  by (simp add: round_half_even_def)

text \<open>Half-integers below \<open>2^52\<close> in magnitude are binary64 numbers.\<close>

lemma binary64_half_integer:
  assumes "\<bar>k\<bar> < 2 ^ 53"
  shows "binary64 (of_int k / 2) = Finite (of_int k / 2)"
proof (cases "k = 0")
  case True
  then show ?thesis by (simp add: binary64_def)
next
  case False
  define x :: rat where "x = of_int k / 2"
  have x0: "x \<noteq> 0" using False by (simp add: x_def)
  have ax: "\<bar>x\<bar> = of_int \<bar>k\<bar> / 2" by (simp add: x_def)
  have "(of_int \<bar>k\<bar> :: rat) < of_int (2 ^ 53)"
    using assms by (simp only: of_int_less_iff)
  then have small: "\<bar>x\<bar> < power_int 2 52" by (simp add: ax)
  define e where "e = max (ilog2 x) (- 1022)"
  have "power_int (2::rat) (ilog2 x) < power_int 2 52"
    using ilog2_bounds(1) [OF x0] small by (rule le_less_trans)
  then have "ilog2 x < 52"
    by (metis power_int_increasing not_less one_le_numeral)
  then have e: "e \<le> 51" by (simp add: e_def)
  define n where "n = nat (51 - e)"
  have u: "power_int (2::rat) (e - 52) = 1 / (2 * 2 ^ n)"
  proof -
    have "e - 52 = - (1 + int n)" using e by (simp add: n_def)
    then have "power_int (2::rat) (e - 52) = power_int 2 (- (1 + int n))" by simp
    also have "\<dots> = 1 / power_int 2 (1 + int n)" by (simp only: power_int_minus_divide)
    also have "\<dots> = 1 / (2 * 2 ^ n)" by (simp add: power_int_add)
    finally show ?thesis .
  qed
  have q: "x / power_int 2 (e - 52) = of_int (k * 2 ^ n)"
    by (simp add: u x_def)
  have r: "of_int (round_half_even (x / power_int 2 (e - 52))) * power_int 2 (e - 52) = x"
    by (simp only: q round_half_even_of_int) (simp add: u x_def)
  have "\<bar>x\<bar> < power_int 2 1024"
    using small by (rule less_trans) simp
  then have "\<not> power_int 2 1024 \<le> \<bar>x\<bar>" by simp
  then have "binary64 x = Finite x"
    using x0 r unfolding binary64_def Let_def e_def [symmetric] by (simp add: e_def)
  then show ?thesis by (simp add: x_def)
qed

lemma binary64_integer:
  assumes "\<bar>n\<bar> < 2 ^ 52"
  shows "binary64 (of_int n) = Finite (of_int n)"
proof -
  have "\<bar>2 * n\<bar> < 2 ^ 53" using assms by simp
  from binary64_half_integer [OF this] show ?thesis by simp
qed

lemma table_multipliers_half_integers:
  assumes "map_of HAND_BASE_MULTIPLIERS name = Some m"
  shows "\<exists>k. m = of_int k / 2 \<and> 2 \<le> k \<and> k \<le> 14"
proof -
  from assms have "m \<in> {1, 3 / 2, 2, 5 / 2, 3, 7 / 2, 4, 5, 7}"
    by (auto simp: HAND_BASE_MULTIPLIERS_def split: if_splits)
  then consider "m = of_int 2 / 2" | "m = of_int 3 / 2" | "m = of_int 4 / 2" | "m = of_int 5 / 2"
    | "m = of_int 6 / 2" | "m = of_int 7 / 2" | "m = of_int 8 / 2" | "m = of_int 10 / 2"
    | "m = of_int 14 / 2"
    by auto
  then show ?thesis
    by cases (rule exI, rule conjI, assumption, simp)+
qed

text \<open>Below \<open>2^52\<close> the float product of a table multiplier and a level is the exact one.\<close>

lemma multiplier_product_exact:
  assumes "map_of HAND_BASE_MULTIPLIERS name = Some m"
    and "1 \<le> l" and "m * of_int l < 2 ^ 52"
  shows "int_to_float l = Inr (of_int l)"
    and "binary64 (m * of_int l) = Finite (m * of_int l)"
proof -
  from table_multipliers_half_integers [OF assms(1)]
  obtain k where k: "m = of_int k / 2" "2 \<le> k" "k \<le> 14" by blast
  have "(of_int (k * l) :: rat) < of_int (2 ^ 53)"
    using assms(3) by (simp add: k(1))
  then have kl: "k * l < 2 ^ 53" by (simp only: of_int_less_iff)
  have "2 * l \<le> k * l"
    using k(2) assms(2) by (intro mult_right_mono) simp_all
  then have "2 * l < 2 ^ 53" using kl by (rule le_less_trans)
  then have "\<bar>l\<bar> < 2 ^ 52" using assms(2) by simp
  then have "binary64 (of_int l) = Finite (of_int l)" by (rule binary64_integer)
  then show "int_to_float l = Inr (of_int l)" by (simp add: int_to_float_def)
  have "0 \<le> k * l" using k(2) assms(2) by simp
  then have "\<bar>k * l\<bar> < 2 ^ 53" using kl by simp
  from binary64_half_integer [OF this]
  show "binary64 (m * of_int l) = Finite (m * of_int l)" by (simp add: k(1))
qed

text \<open>
  C2, as amended. For a category \<open>name\<close> of the multiplier table, with base multiplier
  \<open>m\<close>, the constructor succeeds with a hand \<open>h\<close> of level 1 whose base chips \<open>c\<close> are the
  chip table's entry; its chips are \<open>c\<close> and its multiplier is \<open>m\<close>. After \<open>N\<close> calls of
  \<open>level_up\<close> the level is \<open>N + 1\<close>, for every \<open>N\<close>; \<open>calculate_chips\<close> is \<open>c \<times> level\<close>, that
  is \<open>N + 1\<close> times its value at level 1, for every \<open>N\<close>; \<open>calculate_multiplier\<close> is the
  binary64 product of \<open>m\<close> and the level converted to a float; and whenever
  \<open>m \<times> (N + 1) < 2^52\<close> that product is exactly \<open>m \<times> level\<close>, that is \<open>N + 1\<close> times its
  value at level 1.
\<close>

theorem Hand_scores_linear:
  assumes "map_of HAND_BASE_MULTIPLIERS name = Some m"
  shows "\<exists>h c. Hand_init name cs = Inr h \<and> map_of HAND_BASE_CHIPS name = Some c
           \<and> level h = 1 \<and> calculate_chips h = c \<and> calculate_multiplier h = Inr (Finite m)
           \<and> level ((level_up ^^ N) h) = int N + 1
           \<and> calculate_chips ((level_up ^^ N) h) = c * level ((level_up ^^ N) h)
           \<and> calculate_chips ((level_up ^^ N) h) = (int N + 1) * calculate_chips h
           \<and> calculate_multiplier ((level_up ^^ N) h) =
               (case int_to_float (int N + 1) of
                  Inl e \<Rightarrow> Inl e
                | Inr l \<Rightarrow> Inr (binary64 (m * l)))
           \<and> (m * of_int (int N + 1) < 2 ^ 52 \<longrightarrow>
                calculate_multiplier ((level_up ^^ N) h)
                  = Inr (Finite (m * of_int (level ((level_up ^^ N) h))))
                \<and> calculate_multiplier ((level_up ^^ N) h) = Inr (Finite (of_int (int N + 1) * m)))"
proof -
  from assms obtain c where c: "map_of HAND_BASE_CHIPS name = Some c"
    using chips_for_every_multiplier by blast
  define h where "h = \<lparr>hand_name = name, cards = cs, level = 1, base_chips = c, base_multiplier = m\<rparr>"
  have init: "Hand_init name cs = Inr h"
    using assms c by (simp add: Hand_init_def h_def)
  have lv: "level ((level_up ^^ N) h) = int N + 1"
    by (simp add: level_up_funpow h_def)
  have chips: "calculate_chips h = c" "calculate_chips ((level_up ^^ N) h) = c * (int N + 1)"
    by (simp_all add: level_up_funpow calculate_chips_def h_def)
  have m1: "m * of_int 1 < 2 ^ 52"
    using table_multipliers_half_integers [OF assms] by auto
  have one: "calculate_multiplier h = Inr (Finite m)"
    using multiplier_product_exact [OF assms _ m1]
    by (simp add: calculate_multiplier_def h_def)
  have gen: "calculate_multiplier ((level_up ^^ N) h) =
               (case int_to_float (int N + 1) of
                  Inl e \<Rightarrow> Inl e
                | Inr l \<Rightarrow> Inr (binary64 (m * l)))"
    by (simp add: level_up_funpow calculate_multiplier_def h_def add.commute split: sum.splits)
  have exact: "calculate_multiplier ((level_up ^^ N) h) = Inr (Finite (m * of_int (int N + 1)))"
    if "m * of_int (int N + 1) < 2 ^ 52"
    using multiplier_product_exact [OF assms _ that] by (simp add: gen)
  show ?thesis
  proof (rule exI [of _ h], rule exI [of _ c], intro conjI impI)
    show "Hand_init name cs = Inr h" by (rule init)
    show "map_of HAND_BASE_CHIPS name = Some c" by (rule c)
    show "level h = 1" by (simp add: h_def)
    show "calculate_chips h = c" by (rule chips(1))
    show "calculate_multiplier h = Inr (Finite m)" by (rule one)
    show "level ((level_up ^^ N) h) = int N + 1" by (rule lv)
    show "calculate_chips ((level_up ^^ N) h) = c * level ((level_up ^^ N) h)"
      by (simp only: chips(2) lv)
    show "calculate_chips ((level_up ^^ N) h) = (int N + 1) * calculate_chips h"
      by (simp only: chips mult.commute)
    show "calculate_multiplier ((level_up ^^ N) h) =
               (case int_to_float (int N + 1) of
                  Inl e \<Rightarrow> Inl e
                | Inr l \<Rightarrow> Inr (binary64 (m * l)))"
      by (rule gen)
  next
    assume b: "m * of_int (int N + 1) < 2 ^ 52"
    show "calculate_multiplier ((level_up ^^ N) h)
            = Inr (Finite (m * of_int (level ((level_up ^^ N) h))))"
      using exact [OF b] by (simp only: lv)
    show "calculate_multiplier ((level_up ^^ N) h) = Inr (Finite (of_int (int N + 1) * m))"
      using exact [OF b] by (simp only: mult.commute)
  qed
qed

theorem Hand_scores_linear_witness:
  "map_of HAND_BASE_MULTIPLIERS ''Flush'' = Some (7 / 2)
   \<and> (7 / 2 :: rat) * of_int (int 3 + 1) < 2 ^ 52
   \<and> (\<exists>h. Hand_init ''Flush'' [] = Inr h
        \<and> level ((level_up ^^ 3) h) = 4
        \<and> calculate_chips ((level_up ^^ 3) h) = 160
        \<and> calculate_multiplier h = Inr (Finite (7 / 2))
        \<and> calculate_multiplier ((level_up ^^ 3) h) = Inr (Finite 14))"
proof -
  have m: "map_of HAND_BASE_MULTIPLIERS ''Flush'' = Some (7 / 2)"
    by (simp add: HAND_BASE_MULTIPLIERS_def)
  have c: "map_of HAND_BASE_CHIPS ''Flush'' = Some 40"
    by (simp add: HAND_BASE_CHIPS_def)
  have b: "(7 / 2 :: rat) * of_int (int 3 + 1) < 2 ^ 52" by simp
  from Hand_scores_linear [OF m, of "[]" 3] c m b show ?thesis
    by auto
qed

text \<open>
  The claim as stated fails for the multiplier at large levels. A fresh Flush hand has
  multiplier 3.5; after 1286742750677284 calls of \<open>level_up\<close> its level is
  1286742750677285, and the exact product \<open>2^52 + 1.5\<close> lies halfway between two
  binary64 numbers: \<open>calculate_multiplier\<close> returns 4503599627370498.0, which is not
  1286742750677285 times 3.5.
\<close>

theorem Hand_multiplier_rounding_counterexample:
  "Hand_init ''Flush'' [] =
      Inr \<lparr>hand_name = ''Flush'', cards = [], level = 1, base_chips = 40, base_multiplier = 7 / 2\<rparr>
   \<and> calculate_multiplier
        \<lparr>hand_name = ''Flush'', cards = [], level = 1, base_chips = 40, base_multiplier = 7 / 2\<rparr>
       = Inr (Finite (7 / 2))
   \<and> level ((level_up ^^ 1286742750677284)
        \<lparr>hand_name = ''Flush'', cards = [], level = 1, base_chips = 40, base_multiplier = 7 / 2\<rparr>)
       = 1286742750677285
   \<and> calculate_multiplier ((level_up ^^ 1286742750677284)
        \<lparr>hand_name = ''Flush'', cards = [], level = 1, base_chips = 40, base_multiplier = 7 / 2\<rparr>)
       = Inr (Finite 4503599627370498)
   \<and> Finite 4503599627370498 \<noteq> Finite (1286742750677285 * (7 / 2))"
proof -
  define h where
    "h = \<lparr>hand_name = ''Flush'', cards = [], level = 1, base_chips = 40, base_multiplier = 7 / 2\<rparr>"
  have init: "Hand_init ''Flush'' [] = Inr h"
    by (simp add: Hand_init_def HAND_BASE_MULTIPLIERS_def HAND_BASE_CHIPS_def h_def)
  have c1: "int_to_float 1 = Inr 1"
    using binary64_integer [of 1] by (simp add: int_to_float_def)
  have b1: "binary64 (7 / 2) = Finite (7 / 2)"
    using binary64_half_integer [of 7] by simp
  have one: "calculate_multiplier h = Inr (Finite (7 / 2))"
    by (simp add: calculate_multiplier_def h_def c1 b1)
  have up: "(level_up ^^ 1286742750677284) h = h\<lparr>level := 1286742750677285\<rparr>"
    by (simp only: level_up_funpow) (simp add: h_def)
  have cl: "int_to_float 1286742750677285 = Inr 1286742750677285"
    using binary64_integer [of 1286742750677285] by (simp add: int_to_float_def)
  have e: "ilog2 (9007199254740995 / 2) = 52"
    by (rule ilog2_eqI) simp_all
  have f: "\<lfloor>9007199254740995 / 2 :: rat\<rfloor> = 4503599627370497"
    by (rule floor_unique) simp_all
  have r: "round_half_even (9007199254740995 / 2) = 4503599627370498"
    by (simp add: round_half_even_def Let_def f)
  have big: "binary64 (9007199254740995 / 2) = Finite 4503599627370498"
    by (simp add: binary64_def Let_def e r)
  have many: "calculate_multiplier (h\<lparr>level := 1286742750677285\<rparr>) = Inr (Finite 4503599627370498)"
    by (simp add: calculate_multiplier_def h_def cl big)
  have lv: "level (h\<lparr>level := 1286742750677285\<rparr>) = 1286742750677285" by simp
  have ne: "Finite 4503599627370498 \<noteq> Finite (1286742750677285 * (7 / 2))" by simp
  show ?thesis
    using init one many lv ne unfolding up [symmetric] unfolding h_def by blast
qed

text \<open>
  C3. A name that is not a key of the multiplier table makes the constructor raise
  \<^verbatim>\<open>ValueError\<close> (invalid hand name) and yield no hand. "Royal Flush" has a chip entry
  (150) and no multiplier entry, and is rejected in this way.
\<close>

theorem Hand_init_rejects:
  "(name \<notin> fst ` set HAND_BASE_MULTIPLIERS \<longrightarrow>
      Hand_init name cs = Inl (ValueError (''Invalid hand name: '' @ name)))
   \<and> map_of HAND_BASE_CHIPS ''Royal Flush'' = Some 150
   \<and> ''Royal Flush'' \<notin> fst ` set HAND_BASE_MULTIPLIERS
   \<and> Hand_init ''Royal Flush'' cs = Inl (ValueError ''Invalid hand name: Royal Flush'')"
proof -
  have "name \<notin> fst ` set HAND_BASE_MULTIPLIERS \<longrightarrow>
      Hand_init name cs = Inl (ValueError (''Invalid hand name: '' @ name))"
    by (simp add: Hand_init_def map_of_eq_None_iff)
  moreover have "map_of HAND_BASE_CHIPS ''Royal Flush'' = Some 150"
    by (simp add: HAND_BASE_CHIPS_def)
  moreover have "''Royal Flush'' \<notin> fst ` set HAND_BASE_MULTIPLIERS"
    by (simp add: HAND_BASE_MULTIPLIERS_def)
  moreover have "Hand_init ''Royal Flush'' cs = Inl (ValueError ''Invalid hand name: Royal Flush'')"
    by (simp add: Hand_init_def HAND_BASE_MULTIPLIERS_def)
  ultimately show ?thesis by blast
qed

theorem Hand_init_rejects_witness:
  "''Five of a Kind'' \<notin> fst ` set HAND_BASE_MULTIPLIERS
   \<and> Hand_init ''Five of a Kind'' [] = Inl (ValueError ''Invalid hand name: Five of a Kind'')"
proof -
  have h: "''Five of a Kind'' \<notin> fst ` set HAND_BASE_MULTIPLIERS"
    by (simp add: HAND_BASE_MULTIPLIERS_def)
  from Hand_init_rejects [of "''Five of a Kind''" "[]"] h show ?thesis
    by simp
qed

section \<open>Boss escalation\<close>

lemma tick_counts:
  assumes "boss_mode_active b"
    and "round_counter b + 1 < difficulty_level b * escalation_rate b"
  shows "increase_boss_blinds b = b\<lparr>round_counter := round_counter b + 1\<rparr>"
  using assms by (simp add: increase_boss_blinds_def Let_def)

lemma tick_escalates:
  assumes "boss_mode_active b"
    and "difficulty_level b * escalation_rate b \<le> round_counter b + 1"
  shows "increase_boss_blinds b =
           b\<lparr>small_blind := min (small_blind b + 5) (max_blind_cap b),
             big_blind := min (big_blind b + 5) (max_blind_cap b),
             round_counter := 0\<rparr>"
  using assms by (simp add: increase_boss_blinds_def Let_def)

lemma tick_inactive:
  "\<not> boss_mode_active b \<Longrightarrow> increase_boss_blinds b = b"
  by (simp add: increase_boss_blinds_def)

lemma ticks_below_threshold:
  assumes "boss_mode_active b" and "round_counter b = 0"
    and "int k < difficulty_level b * escalation_rate b"
  shows "(increase_boss_blinds ^^ k) b = b\<lparr>round_counter := int k\<rparr>"
  using assms(3)
proof (induction k)
  case 0
  then show ?case using assms(2) by simp
next
  case (Suc k)
  then have ih: "(increase_boss_blinds ^^ k) b = b\<lparr>round_counter := int k\<rparr>" by simp
  have "(increase_boss_blinds ^^ Suc k) b = increase_boss_blinds (b\<lparr>round_counter := int k\<rparr>)"
    by (simp only: funpow.simps o_apply ih)
  also have "\<dots> = b\<lparr>round_counter := int k\<rparr>\<lparr>round_counter := int k + 1\<rparr>"
    using tick_counts [of "b\<lparr>round_counter := int k\<rparr>"] assms(1) Suc.prems by simp
  finally show ?case by (simp add: add.commute)
qed

lemma ticks_inactive:
  "\<not> boss_mode_active b \<Longrightarrow> (increase_boss_blinds ^^ n) b = b"
  by (induction n) (simp_all add: tick_inactive)

lemma ticks_at_threshold:
  assumes "boss_mode_active b" and "round_counter b = 0"
    and "1 \<le> difficulty_level b * escalation_rate b"
  shows "(increase_boss_blinds ^^ nat (difficulty_level b * escalation_rate b)) b =
           b\<lparr>small_blind := min (small_blind b + 5) (max_blind_cap b),
             big_blind := min (big_blind b + 5) (max_blind_cap b)\<rparr>"
proof -
  obtain k where k: "nat (difficulty_level b * escalation_rate b) = Suc k"
    using assms(3) by (cases "nat (difficulty_level b * escalation_rate b)") simp_all
  then have kT: "int k + 1 = difficulty_level b * escalation_rate b"
    using assms(3) by linarith
  then have ih: "(increase_boss_blinds ^^ k) b = b\<lparr>round_counter := int k\<rparr>"
    using ticks_below_threshold [OF assms(1,2), of k] by linarith
  have "(increase_boss_blinds ^^ Suc k) b = increase_boss_blinds (b\<lparr>round_counter := int k\<rparr>)"
    by (simp only: funpow.simps o_apply ih)
  also have "\<dots> = b\<lparr>small_blind := min (small_blind b + 5) (max_blind_cap b),
        big_blind := min (big_blind b + 5) (max_blind_cap b)\<rparr>"
    using tick_escalates [of "b\<lparr>round_counter := int k\<rparr>"] assms(1,2) kT by simp
  finally show ?thesis using k by simp
qed

text \<open>
  C4, as amended. For a BossBlinds with boss mode active, \<open>round_counter = 0\<close> and
  \<open>difficulty_level \<times> escalation_rate \<ge> 1\<close>: after exactly
  \<open>difficulty_level \<times> escalation_rate\<close> ticks each blind is the minimum of its old value
  plus 5 and the cap, and \<open>round_counter\<close> is 0 again; after any smaller number of
  ticks neither blind has changed. For a BossBlinds with boss mode inactive, any number
  of ticks leaves both blinds and \<open>round_counter\<close> as they were.
\<close>

theorem escalation_after_threshold_ticks:
  "(boss_mode_active b \<and> round_counter b = 0 \<and> 1 \<le> difficulty_level b * escalation_rate b \<longrightarrow>
      small_blind ((increase_boss_blinds ^^ nat (difficulty_level b * escalation_rate b)) b)
        = min (small_blind b + 5) (max_blind_cap b)
      \<and> big_blind ((increase_boss_blinds ^^ nat (difficulty_level b * escalation_rate b)) b)
        = min (big_blind b + 5) (max_blind_cap b)
      \<and> round_counter ((increase_boss_blinds ^^ nat (difficulty_level b * escalation_rate b)) b) = 0
      \<and> (\<forall>k. k < nat (difficulty_level b * escalation_rate b) \<longrightarrow>
            small_blind ((increase_boss_blinds ^^ k) b) = small_blind b
            \<and> big_blind ((increase_boss_blinds ^^ k) b) = big_blind b))
   \<and> (\<not> boss_mode_active b \<longrightarrow>
        small_blind ((increase_boss_blinds ^^ n) b) = small_blind b
        \<and> big_blind ((increase_boss_blinds ^^ n) b) = big_blind b
        \<and> round_counter ((increase_boss_blinds ^^ n) b) = round_counter b)"
proof (intro conjI impI allI)
  assume a: "boss_mode_active b \<and> round_counter b = 0 \<and> 1 \<le> difficulty_level b * escalation_rate b"
  note th = ticks_at_threshold [of b]
  show "small_blind ((increase_boss_blinds ^^ nat (difficulty_level b * escalation_rate b)) b)
        = min (small_blind b + 5) (max_blind_cap b)"
    using a th by simp
  show "big_blind ((increase_boss_blinds ^^ nat (difficulty_level b * escalation_rate b)) b)
        = min (big_blind b + 5) (max_blind_cap b)"
    using a th by simp
  show "round_counter ((increase_boss_blinds ^^ nat (difficulty_level b * escalation_rate b)) b) = 0"
    using a th by simp
  fix k assume "k < nat (difficulty_level b * escalation_rate b)"
  then have "int k < difficulty_level b * escalation_rate b" by linarith
  then have e: "(increase_boss_blinds ^^ k) b = b\<lparr>round_counter := int k\<rparr>"
    using a ticks_below_threshold by blast
  show "small_blind ((increase_boss_blinds ^^ k) b) = small_blind b" using e by simp
  show "big_blind ((increase_boss_blinds ^^ k) b) = big_blind b" using e by simp
next
  assume "\<not> boss_mode_active b"
  then have e: "(increase_boss_blinds ^^ n) b = b" by (rule ticks_inactive)
  show "small_blind ((increase_boss_blinds ^^ n) b) = small_blind b" using e by simp
  show "big_blind ((increase_boss_blinds ^^ n) b) = big_blind b" using e by simp
  show "round_counter ((increase_boss_blinds ^^ n) b) = round_counter b" using e by simp
qed

theorem escalation_after_threshold_ticks_witness:
  "boss_mode_active (activate_boss_mode (BossBlinds_init 10 98 2 100 1 None))
   \<and> round_counter (activate_boss_mode (BossBlinds_init 10 98 2 100 1 None)) = 0
   \<and> difficulty_level (activate_boss_mode (BossBlinds_init 10 98 2 100 1 None))
       * escalation_rate (activate_boss_mode (BossBlinds_init 10 98 2 100 1 None)) = 2
   \<and> small_blind ((increase_boss_blinds ^^ 2) (activate_boss_mode (BossBlinds_init 10 98 2 100 1 None))) = 15
   \<and> big_blind ((increase_boss_blinds ^^ 2) (activate_boss_mode (BossBlinds_init 10 98 2 100 1 None))) = 100
   \<and> round_counter ((increase_boss_blinds ^^ 2) (activate_boss_mode (BossBlinds_init 10 98 2 100 1 None))) = 0
   \<and> small_blind ((increase_boss_blinds ^^ 1) (activate_boss_mode (BossBlinds_init 10 98 2 100 1 None))) = 10
   \<and> big_blind ((increase_boss_blinds ^^ 1) (activate_boss_mode (BossBlinds_init 10 98 2 100 1 None))) = 98
   \<and> \<not> boss_mode_active (BossBlinds_init 10 98 2 100 1 None)
   \<and> small_blind ((increase_boss_blinds ^^ 7) (BossBlinds_init 10 98 2 100 1 None)) = 10
   \<and> big_blind ((increase_boss_blinds ^^ 7) (BossBlinds_init 10 98 2 100 1 None)) = 98
   \<and> round_counter ((increase_boss_blinds ^^ 7) (BossBlinds_init 10 98 2 100 1 None)) = 0"
proof -
  define b where "b = activate_boss_mode (BossBlinds_init 10 98 2 100 1 None)"
  define c where "c = BossBlinds_init 10 98 2 100 1 None"
  have hb: "boss_mode_active b" "round_counter b = 0"
    "difficulty_level b * escalation_rate b = 2"
    "small_blind b = 10" "big_blind b = 98" "max_blind_cap b = 100"
    by (simp_all add: b_def activate_boss_mode_def BossBlinds_init_def)
  have hc: "\<not> boss_mode_active c" "small_blind c = 10" "big_blind c = 98" "round_counter c = 0"
    by (simp_all add: c_def BossBlinds_init_def)
  have one: "(1::nat) < 2" by simp
  from escalation_after_threshold_ticks [of b 0] hb
  have active: "small_blind ((increase_boss_blinds ^^ 2) b) = 15"
    "big_blind ((increase_boss_blinds ^^ 2) b) = 100"
    "round_counter ((increase_boss_blinds ^^ 2) b) = 0"
    and below: "\<forall>k<2. small_blind ((increase_boss_blinds ^^ k) b) = 10
                  \<and> big_blind ((increase_boss_blinds ^^ k) b) = 98"
    by simp_all
  note below1 = below [rule_format, OF one]
  from escalation_after_threshold_ticks [of c 7] hc
  have inactive: "small_blind ((increase_boss_blinds ^^ 7) c) = 10"
    "big_blind ((increase_boss_blinds ^^ 7) c) = 98"
    "round_counter ((increase_boss_blinds ^^ 7) c) = 0"
    by simp_all
  show ?thesis
    using hb hc active below1 inactive unfolding b_def c_def by blast
qed

text \<open>
  The claim as stated fails where the threshold is 0: BossBlinds(10, 20,
  escalation_rate=0, max_blind_cap=100), activated, has \<open>round_counter = 0\<close> and
  threshold \<open>1 \<times> 0 = 0\<close>; after exactly 0 ticks its small blind is still 10, not
  \<open>min (10 + 5) 100 = 15\<close>.
\<close>

theorem escalation_zero_threshold_counterexample:
  "boss_mode_active (activate_boss_mode (BossBlinds_init 10 20 0 100 1 None))
   \<and> round_counter (activate_boss_mode (BossBlinds_init 10 20 0 100 1 None)) = 0
   \<and> small_blind
        ((increase_boss_blinds ^^
            nat (difficulty_level (activate_boss_mode (BossBlinds_init 10 20 0 100 1 None))
                 * escalation_rate (activate_boss_mode (BossBlinds_init 10 20 0 100 1 None))))
          (activate_boss_mode (BossBlinds_init 10 20 0 100 1 None)))
       \<noteq> min (small_blind (activate_boss_mode (BossBlinds_init 10 20 0 100 1 None)) + 5)
             (max_blind_cap (activate_boss_mode (BossBlinds_init 10 20 0 100 1 None)))"
  by (simp add: activate_boss_mode_def BossBlinds_init_def)

lemma boss_step_capped:
  "capped (fst st) \<Longrightarrow> capped (fst (boss_step st c))"
  by (cases st; cases c)
     (simp_all add: capped_def activate_boss_mode_def deactivate_boss_mode_def
        increase_boss_blinds_def apply_boss_rules_def Let_def)

lemma boss_step_cap_fixed:
  "max_blind_cap (fst (boss_step st c)) = max_blind_cap (fst st)"
  by (cases st; cases c)
     (simp_all add: activate_boss_mode_def deactivate_boss_mode_def
        increase_boss_blinds_def apply_boss_rules_def Let_def)

lemma boss_run_capped:
  "capped (fst st) \<Longrightarrow> capped (fst (boss_run cs st))"
  unfolding boss_run_def
  by (induction cs arbitrary: st) (simp_all add: boss_step_capped)

lemma boss_run_cap_fixed:
  "max_blind_cap (fst (boss_run cs st)) = max_blind_cap (fst st)"
  unfolding boss_run_def
  by (induction cs arbitrary: st) (simp_all add: boss_step_cap_fixed)

text \<open>
  C5, as amended. When a BossBlinds is constructed with both starting blinds at most
  \<open>max_blind_cap\<close>, then after any sequence of \<open>activate_boss_mode\<close>,
  \<open>deactivate_boss_mode\<close>, \<open>increase_boss_blinds\<close> and \<open>apply_boss_rules\<close> calls (on any
  ledger) both blinds are at most the cap, which is still the constructor's.
\<close>

theorem blinds_never_exceed_cap:
  assumes "sb \<le> cap" and "bb \<le> cap"
  shows "small_blind (fst (boss_run cs (BossBlinds_init sb bb er cap dl rules, g))) \<le> cap
       \<and> big_blind (fst (boss_run cs (BossBlinds_init sb bb er cap dl rules, g))) \<le> cap
       \<and> max_blind_cap (fst (boss_run cs (BossBlinds_init sb bb er cap dl rules, g))) = cap"
proof -
  let ?st = "(BossBlinds_init sb bb er cap dl rules, g)"
  have "capped (fst ?st)"
    using assms by (simp add: capped_def BossBlinds_init_def)
  then have "capped (fst (boss_run cs ?st))"
    by (rule boss_run_capped)
  moreover have "max_blind_cap (fst (boss_run cs ?st)) = cap"
    by (simp add: boss_run_cap_fixed BossBlinds_init_def)
  ultimately show ?thesis
    by (simp add: capped_def)
qed

theorem blinds_never_exceed_cap_witness:
  "(10::int) \<le> 100 \<and> (98::int) \<le> 100
   \<and> small_blind (fst (boss_run [Activate, Increase, ApplyRules, Increase, Deactivate, Increase]
        (BossBlinds_init 10 98 2 100 1 (Some [(''bonus_chips'', 4)]), L0))) \<le> 100
   \<and> big_blind (fst (boss_run [Activate, Increase, ApplyRules, Increase, Deactivate, Increase]
        (BossBlinds_init 10 98 2 100 1 (Some [(''bonus_chips'', 4)]), L0))) \<le> 100"
  using blinds_never_exceed_cap [of 10 100 98
      "[Activate, Increase, ApplyRules, Increase, Deactivate, Increase]" 2 1
      "Some [(''bonus_chips'', 4)]" L0]
  by simp

text \<open>
  The claim as stated fails for BossBlinds(200, 300, escalation_rate=1,
  max_blind_cap=100): the constructor stores the blinds as given, and after
  \<open>deactivate_boss_mode\<close>, \<open>apply_boss_rules\<close> and \<open>increase_boss_blinds\<close> (boss mode
  inactive) both blinds are still above the cap.
\<close>

theorem blinds_above_cap_counterexample:
  "max_blind_cap (fst (boss_run [Deactivate, ApplyRules, Increase]
        (BossBlinds_init 200 300 1 100 1 None, L0)))
     < small_blind (fst (boss_run [Deactivate, ApplyRules, Increase]
        (BossBlinds_init 200 300 1 100 1 None, L0)))
   \<and> max_blind_cap (fst (boss_run [Deactivate, ApplyRules, Increase]
        (BossBlinds_init 200 300 1 100 1 None, L0)))
     < big_blind (fst (boss_run [Deactivate, ApplyRules, Increase]
        (BossBlinds_init 200 300 1 100 1 None, L0)))"
  by (simp add: boss_run_def BossBlinds_init_def deactivate_boss_mode_def
        apply_boss_rules_def increase_boss_blinds_def)

section \<open>Phase states\<close>

text \<open>
  C6. On a PlayState, \<open>is_terminal\<close> returns whether
  \<open>current_score \<ge> required_score\<close> or \<open>rounds_remaining \<le> 0\<close>, and leaves the object as
  it was: true for (current 100, required 100, rounds 3), true for (0, 100, 0), false
  for (0, 100, 3).
\<close>

theorem PlayState_is_terminal:
  "is_terminal (PlayState_obj b p) =
     (Inr (current_score p \<ge> required_score p \<or> rounds_remaining p \<le> 0), PlayState_obj b p)
   \<and> is_terminal (PlayState_init h c m 100 100 3 js bs) = (Inr True, PlayState_init h c m 100 100 3 js bs)
   \<and> is_terminal (PlayState_init h c m 100 0 0 js bs) = (Inr True, PlayState_init h c m 100 0 0 js bs)
   \<and> is_terminal (PlayState_init h c m 100 0 3 js bs) = (Inr False, PlayState_init h c m 100 0 3 js bs)"
  by (simp add: PlayState_init_def)

lemma comprehension_is_filter_map:
  "[f x. x \<leftarrow> xs, P x] = map f (filter P xs)"
  by (induction xs) simp_all

lemma comprehension_is_filter:
  "[x. x \<leftarrow> xs, P x] = filter P xs"
  by (induction xs) simp_all


text \<open>
  C7. On a BuyState, \<open>get_actions\<close> returns the names of the shop items whose cost is at
  most the money, in the order of the shop list, and leaves the object as it was; for
  the shop [A at 5, B at 50] and money 10 the result is exactly ["A"].
\<close>

theorem BuyState_get_actions:
  "get_actions (BuyState_obj b s) =
     (Inr (map item_name (filter (\<lambda>item. item_cost item \<le> money s) (shop_items s))),
      BuyState_obj b s)
   \<and> get_actions (BuyState_init
        [\<lparr>item_name = ''A'', item_cost = 5\<rparr>, \<lparr>item_name = ''B'', item_cost = 50\<rparr>] 10 jo rr sl)
     = (Inr [''A''], BuyState_init
        [\<lparr>item_name = ''A'', item_cost = 5\<rparr>, \<lparr>item_name = ''B'', item_cost = 50\<rparr>] 10 jo rr sl)"
  by (simp add: comprehension_is_filter_map BuyState_init_def)



text \<open>The random model is not degenerate: every affordable item is returned by some draw.\<close>

lemma every_affordable_item_can_be_drawn:
  assumes "item \<in> set (shop_items s)" and "item_cost item \<le> money s"
  shows "\<exists>r. simulate r (BuyState_obj b s) = (Inr (of_int (item_cost item) / 10), BuyState_obj b s)"
proof -
  let ?aff = "filter (\<lambda>item. item_cost item \<le> money s) (shop_items s)"
  from assms have "item \<in> set ?aff" by simp
  then obtain i where i: "i < length ?aff" "?aff ! i = item"
    unfolding in_set_conv_nth by blast
  then have "?aff \<noteq> []" by auto
  moreover have "choice i ?aff = Inr item"
    using i by (auto simp: choice_def)
  ultimately have "simulate i (BuyState_obj b s) = (Inr (of_int (item_cost item) / 10), BuyState_obj b s)"
    by (simp add: comprehension_is_filter Let_def)
  then show ?thesis ..
qed

section \<open>Effect engine\<close>

text \<open>
  C9. Applying an effect of kind \<open>increase_chips\<close> with magnitude \<open>m\<close> ends normally and
  adds \<open>m\<close> to the ledger's chips, every other field as before. Applying
  \<open>increase_chips\<close> without a magnitude, or an effect whose kind is none of
  \<open>increase_chips\<close>, \<open>double_bet\<close>, \<open>swap_cards\<close>, ends normally and leaves the ledger as
  it was. Effect("increase_chips", 7) on chips 3 gives chips 10.
\<close>

theorem Effect_apply_ledger:
  "Effect_apply (Effect_init ''increase_chips'' (Some m)) l = (Inr (), l\<lparr>chips := chips l + m\<rparr>)
   \<and> Effect_apply (Effect_init ''increase_chips'' None) l = (Inr (), l)
   \<and> (k \<notin> {''increase_chips'', ''double_bet'', ''swap_cards''} \<longrightarrow>
        Effect_apply (Effect_init k v) l = (Inr (), l))
   \<and> chips (snd (Effect_apply (Effect_init ''increase_chips'' (Some 7)) (l\<lparr>chips := 3\<rparr>))) = 10"
  by (simp add: Effect_apply_def Effect_init_def)

theorem Effect_apply_ledger_witness:
  "''teleport'' \<notin> {''increase_chips'', ''double_bet'', ''swap_cards''}
   \<and> Effect_apply (Effect_init ''teleport'' (Some 4)) L0 = (Inr (), L0)
   \<and> Effect_apply (Effect_init ''increase_chips'' (Some 7)) L0 = (Inr (), L0\<lparr>chips := 10\<rparr>)"
  using Effect_apply_ledger [of 7 L0 "''teleport''" "Some 4"]
  by (simp add: L0_def)

section \<open>Abstract capabilities\<close>

text \<open>
  C10. On an instance of the base class GameState, \<open>is_terminal\<close>, \<open>get_actions\<close> and
  \<open>simulate\<close> raise \<^verbatim>\<open>NotImplementedError\<close> and leave the object as it was; on an
  instance of the base class Consumable, \<open>apply_effect\<close> raises
  \<^verbatim>\<open>NotImplementedError\<close> and leaves the consumable and the ledger as they were.
\<close>

theorem abstract_methods_not_implemented:
  "is_terminal (GameState_init st par) = (Inl (NotImplementedError []), GameState_init st par)
   \<and> get_actions (GameState_init st par) = (Inl (NotImplementedError []), GameState_init st par)
   \<and> simulate r (GameState_init st par) = (Inl (NotImplementedError []), GameState_init st par)
   \<and> is_terminal (GameState_obj g) = (Inl (NotImplementedError []), GameState_obj g)
   \<and> get_actions (GameState_obj g) = (Inl (NotImplementedError []), GameState_obj g)
   \<and> simulate r (GameState_obj g) = (Inl (NotImplementedError []), GameState_obj g)
   \<and> apply_effect (Consumable_obj (Consumable_init n c d ra)) l =
       (Inl (NotImplementedError ''Each consumable card must implement its own effect.''),
        (Consumable_obj (Consumable_init n c d ra), l))
   \<and> apply_effect (Consumable_obj a) l =
       (Inl (NotImplementedError ''Each consumable card must implement its own effect.''),
        (Consumable_obj a, l))"
  by (simp add: GameState_init_def)

end
